theory Spec2Isabelle
  imports Main
begin

section \<open>Python values and exceptions\<close>

text \<open>
  The values a configuration key can hold: booleans, integers, strings and lists, and
  the class object \<open>NoConfigDefault\<close> that the argument table of \<open>ipapp.py\<close> gives
  every option as its default (the "unset" sentinel).
\<close>

datatype pyval = VBool bool | VInt int | VStr string | VList "pyval list" | NoConfigDefault

text \<open>
  Python's truth value testing, as \<open>if config.Global.classic:\<close> applies it: zero, the
  empty string and the empty list are false, a class object is true.
\<close>

fun truthy :: "pyval \<Rightarrow> bool" where
  "truthy (VBool b) = b"
| "truthy (VInt i) = (i \<noteq> 0)"
| "truthy (VStr s) = (s \<noteq> [])"
| "truthy (VList xs) = (xs \<noteq> [])"
| "truthy NoConfigDefault = True"

text \<open>
  Python's \<open>==\<close> on these values: \<open>bool\<close> is a subclass of \<open>int\<close>, so
  \<open>False == 0\<close> and \<open>True == 1\<close>, also inside lists.
\<close>

fun py_norm :: "pyval \<Rightarrow> pyval" where
  "py_norm (VBool b) = VInt (if b then 1 else 0)"
| "py_norm (VList xs) = VList (map py_norm xs)"
| "py_norm v = v"

definition py_eq :: "pyval \<Rightarrow> pyval \<Rightarrow> bool" where
  "py_eq a b = (py_norm a = py_norm b)"

text \<open>
  The exceptions of the model. The bare \<open>except:\<close> clauses of \<open>ipapp.py\<close> catch
  every one of them; \<open>Raised msg\<close> stands for whatever an external collaborator raises.
\<close>

datatype exn = TypeError | AttributeError | Raised string

text \<open>
  A call either returns or raises; in both cases it leaves a state behind (the state
  the handler of a \<open>try\<close> sees).
\<close>

datatype 'a result = Ok 'a | Raise exn 'a

text \<open>
  \<open>for x in v\<close>: a list gives its elements, a string its characters, anything else
  is not iterable (TypeError).
\<close>

fun py_iter :: "pyval \<Rightarrow> exn + pyval list" where
  "py_iter (VList xs) = Inr xs"
| "py_iter (VStr s) = Inr (map (\<lambda>c. VStr [c]) s)"
| "py_iter v = Inl TypeError"

text \<open>\<open>s.endswith(suf)\<close>\<close>

definition endswith :: "string \<Rightarrow> string \<Rightarrow> bool" where
  "endswith s suf = (take (length suf) (rev s) = rev suf)"

section \<open>Configuration trees\<close>

text \<open>
  Modelled from the spec: the class \<open>Config\<close> of \<open>IPython.config.loader\<close>, which
  \<open>ipapp.py\<close> imports. A ConfigTree maps a section name to a mapping from key names
  to values; a key is either absent or present with a value, and sections are created
  lazily, so a section that was never written reads as the empty section.
\<close>

type_synonym config = "string \<Rightarrow> string \<rightharpoonup> pyval"

definition Config :: config where
  "Config = (\<lambda>sec. Map.empty)"

definition hasattr :: "config \<Rightarrow> string \<Rightarrow> string \<Rightarrow> bool" where
  "hasattr c sec k = (c sec k \<noteq> None)"

definition setattr :: "config \<Rightarrow> string \<Rightarrow> string \<Rightarrow> pyval \<Rightarrow> config" where
  "setattr c sec k v = c(sec := (c sec)(k \<mapsto> v))"

definition delattr :: "config \<Rightarrow> string \<Rightarrow> string \<Rightarrow> config" where
  "delattr c sec k = c(sec := (c sec)(k := None))"

text \<open>
  The guard \<open>if hasattr(c.sec, k): if c.sec.k: ...\<close> that \<open>load_file_config\<close> and
  \<open>pre_construct\<close> use: the key is present and its value is true.
\<close>

definition attr_true :: "config \<Rightarrow> string \<Rightarrow> string \<Rightarrow> bool" where
  "attr_true c sec k = (hasattr c sec k \<and> (case c sec k of Some v \<Rightarrow> truthy v | None \<Rightarrow> False))"

section \<open>The application object\<close>

datatype level = DEBUG | INFO | WARN

text \<open>
  A call of the logger: \<open>self.log.warn(template % arg)\<close> is recorded as its level,
  its template and the arguments of \<open>%\<close>.
\<close>

datatype log_record = LogRecord level string "pyval list"

text \<open>
  The state of an \<open>IPythonApp\<close>: its four configurations, its attributes, the calls
  made to its logger (oldest first), and the state \<open>'w\<close> of everything outside it
  (the interactive shell, the file system, the terminal).
\<close>

record 'w app =
  default_config :: config
  command_line_config :: config
  file_config :: config
  master_config :: config
  ipythondir :: string
  log_level :: int
  log :: "log_record list"
  world :: 'w

definition log_call :: "level \<Rightarrow> string \<Rightarrow> pyval list \<Rightarrow> 'w app \<Rightarrow> 'w app" where
  "log_call lv msg args self = self\<lparr>log := log self @ [LogRecord lv msg args]\<rparr>"

section \<open>\<open>IPythonApp.pre_construct\<close>\<close>

definition pre_construct :: "'w app \<Rightarrow> 'w app" where
  "pre_construct self =
    (let config = master_config self;
         config =
           (if attr_true config ''Global'' ''classic'' then
              (let config = setattr config ''InteractiveShell'' ''cache_size'' (VInt 0);
                   config = setattr config ''InteractiveShell'' ''pprint'' (VInt 0);
                   config = setattr config ''InteractiveShell'' ''prompt_in1'' (VStr ''>>> '');
                   config = setattr config ''InteractiveShell'' ''prompt_in2'' (VStr ''... '');
                   config = setattr config ''InteractiveShell'' ''prompt_out'' (VStr '''');
                   config = setattr config ''InteractiveShell'' ''separate_in'' (VStr '''');
                   config = setattr config ''InteractiveShell'' ''separate_out'' (VStr '''');
                   config = setattr config ''InteractiveShell'' ''separate_out2'' (VStr '''');
                   config = setattr config ''InteractiveShell'' ''colors'' (VStr ''NoColor'');
                   config = setattr config ''InteractiveShell'' ''xmode'' (VStr ''Plain'')
               in config)
            else config);
         config =
           (if attr_true config ''Global'' ''nosep'' then
              (let config = setattr config ''InteractiveShell'' ''separate_in'' (VStr ''0'');
                   config = setattr config ''InteractiveShell'' ''separate_out'' (VStr ''0'');
                   config = setattr config ''InteractiveShell'' ''separate_out2'' (VStr ''0'')
               in config)
            else config)
     in self\<lparr>master_config := config\<rparr>)"

section \<open>The command-line argument table\<close>

text \<open>
  The rows of \<open>cl_args\<close>: the flags, the kind of the option (\<open>action='store_true'\<close>,
  \<open>action='store_false'\<close>, \<open>type=int\<close> or \<open>type=str\<close>) and its destination, a
  section and a key. Every row has the default \<open>NoConfigDefault\<close>.
\<close>

datatype arg_kind = StoreTrue | StoreFalse | TypeInt | TypeStr

definition cl_args :: "(string list \<times> arg_kind \<times> string \<times> string) list" where
  "cl_args =
    [([''-autocall''], TypeInt, ''InteractiveShell'', ''autocall''),
     ([''-autoindent''], StoreTrue, ''InteractiveShell'', ''autoindent''),
     ([''-noautoindent''], StoreFalse, ''InteractiveShell'', ''autoindent''),
     ([''-automagic''], StoreTrue, ''InteractiveShell'', ''automagic''),
     ([''-noautomagic''], StoreFalse, ''InteractiveShell'', ''automagic''),
     ([''-autoedit_syntax''], StoreTrue, ''InteractiveShell'', ''autoedit_syntax''),
     ([''-noautoedit_syntax''], StoreFalse, ''InteractiveShell'', ''autoedit_syntax''),
     ([''-banner''], StoreTrue, ''Global'', ''display_banner''),
     ([''-nobanner''], StoreFalse, ''Global'', ''display_banner''),
     ([''-c''], TypeStr, ''InteractiveShell'', ''c''),
     ([''-cache_size''], TypeInt, ''InteractiveShell'', ''cache_size''),
     ([''-classic''], StoreTrue, ''Global'', ''classic''),
     ([''-colors''], TypeStr, ''InteractiveShell'', ''colors''),
     ([''-color_info''], StoreTrue, ''InteractiveShell'', ''color_info''),
     ([''-nocolor_info''], StoreFalse, ''InteractiveShell'', ''color_info''),
     ([''-confirm_exit''], StoreTrue, ''InteractiveShell'', ''confirm_exit''),
     ([''-noconfirm_exit''], StoreFalse, ''InteractiveShell'', ''confirm_exit''),
     ([''-deep_reload''], StoreTrue, ''InteractiveShell'', ''deep_reload''),
     ([''-nodeep_reload''], StoreFalse, ''InteractiveShell'', ''deep_reload''),
     ([''-editor''], TypeStr, ''InteractiveShell'', ''editor''),
     ([''-log'', ''-l''], StoreTrue, ''InteractiveShell'', ''logstart''),
     ([''-logfile'', ''-lf''], TypeStr, ''InteractiveShell'', ''logfile''),
     ([''-logplay'', ''-lp''], TypeStr, ''InteractiveShell'', ''logplay''),
     ([''-pdb''], StoreTrue, ''InteractiveShell'', ''pdb''),
     ([''-nopdb''], StoreFalse, ''InteractiveShell'', ''pdb''),
     ([''-pprint''], StoreTrue, ''InteractiveShell'', ''pprint''),
     ([''-nopprint''], StoreFalse, ''InteractiveShell'', ''pprint''),
     ([''-prompt_in1'', ''-pi1''], TypeStr, ''InteractiveShell'', ''prompt_in1''),
     ([''-prompt_in2'', ''-pi2''], TypeStr, ''InteractiveShell'', ''prompt_in2''),
     ([''-prompt_out'', ''-po''], TypeStr, ''InteractiveShell'', ''prompt_out''),
     ([''-quick''], StoreTrue, ''Global'', ''quick''),
     ([''-readline''], StoreTrue, ''InteractiveShell'', ''readline_use''),
     ([''-noreadline''], StoreFalse, ''InteractiveShell'', ''readline_use''),
     ([''-screen_length'', ''-sl''], TypeInt, ''InteractiveShell'', ''screen_length''),
     ([''-separate_in'', ''-si''], TypeStr, ''InteractiveShell'', ''separate_in''),
     ([''-separate_out'', ''-so''], TypeStr, ''InteractiveShell'', ''separate_out''),
     ([''-separate_out2'', ''-so2''], TypeStr, ''InteractiveShell'', ''separate_out2''),
     ([''-nosep''], StoreTrue, ''Global'', ''nosep''),
     ([''-term_title''], StoreTrue, ''InteractiveShell'', ''term_title''),
     ([''-noterm_title''], StoreFalse, ''InteractiveShell'', ''term_title''),
     ([''-xmode''], TypeStr, ''InteractiveShell'', ''xmode''),
     ([''-ext''], TypeStr, ''Global'', ''extra_extension''),
     ([''-pylab'', ''-wthread'', ''-qthread'', ''-q4thread'', ''-gthread''], StoreTrue,
        ''Global'', ''threaded_shell'')]"

definition dests :: "(string list \<times> arg_kind \<times> string \<times> string) list \<Rightarrow> (string \<times> string) list" where
  "dests table = map (\<lambda>(flags, kind, dest). dest) table"

section \<open>The collaborators of the application\<close>

text \<open>
  What \<open>ipapp.py\<close> calls and does not define, taken as parameters: the methods of
  the \<open>InteractiveShell\<close> (each may return or raise, and changes the world either
  way), \<open>filefind\<close> and \<open>os.path.isfile\<close>, and the \<open>load_file_config\<close> of the
  base class \<open>Application\<close>.
\<close>

record 'w env =
  set_display_banner :: "bool \<Rightarrow> 'w \<Rightarrow> 'w"
  show_banner :: "'w \<Rightarrow> 'w result"
  print_newline :: "'w \<Rightarrow> 'w"
  load_extension :: "pyval \<Rightarrow> 'w \<Rightarrow> 'w result"
  runlines :: "pyval \<Rightarrow> 'w \<Rightarrow> 'w result"
  safe_execfile :: "string \<Rightarrow> 'w \<Rightarrow> 'w result"
  safe_execfile_ipy :: "string \<Rightarrow> 'w \<Rightarrow> 'w result"
  showtraceback :: "exn \<Rightarrow> 'w \<Rightarrow> 'w"
  filefind :: "pyval \<Rightarrow> string list \<Rightarrow> 'w \<Rightarrow> exn + string"
  isfile :: "string \<Rightarrow> 'w \<Rightarrow> bool"
  super_load_file_config :: "'w app \<Rightarrow> 'w app result"

text \<open>Statement sequencing: a raised exception skips what follows.\<close>

definition and_then :: "'a result \<Rightarrow> ('a \<Rightarrow> 'a result) \<Rightarrow> 'a result" where
  "and_then r f = (case r of Ok s \<Rightarrow> f s | Raise e s \<Rightarrow> Raise e s)"

section \<open>\<open>IPythonApp.load_file_config\<close> and \<open>IPythonApp.post_load_file_config\<close>\<close>

definition load_file_config :: "'w env \<Rightarrow> 'w app \<Rightarrow> 'w app result" where
  "load_file_config sh self =
    (if attr_true (command_line_config self) ''Global'' ''quick''
     then Ok (self\<lparr>file_config := Config\<rparr>)
     else super_load_file_config sh self)"

text \<open>
  \<open>extensions.append(...)\<close> needs a list: any other value has no \<open>append\<close>
  (AttributeError), and then nothing has been changed yet.
\<close>

definition post_load_file_config :: "'w app \<Rightarrow> 'w app result" where
  "post_load_file_config self =
    (case command_line_config self ''Global'' ''extra_extension'' of
       None \<Rightarrow> Ok self
     | Some extra_extension \<Rightarrow>
         (let self =
            (if \<not> hasattr (file_config self) ''Global'' ''extensions''
             then self\<lparr>file_config := setattr (file_config self) ''Global'' ''extensions'' (VList [])\<rparr>
             else self)
          in case file_config self ''Global'' ''extensions'' of
               Some (VList extensions) \<Rightarrow>
                 (let self = self\<lparr>file_config :=
                        setattr (file_config self) ''Global'' ''extensions''
                          (VList (extensions @ [extra_extension]))\<rparr>
                  in Ok (self\<lparr>command_line_config :=
                        delattr (command_line_config self) ''Global'' ''extra_extension''\<rparr>))
             | _ \<Rightarrow> Raise AttributeError self))"

section \<open>The merge of the three configurations\<close>

text \<open>
  Modelled from the spec: \<open>ConfigResolver.resolve\<close>, the merge that the base class
  \<open>Application\<close> performs between \<open>post_load_file_config\<close> and \<open>pre_construct\<close>
  and that is not part of \<open>ipapp.py\<close>. The trees are merged in the order
  default, file, command line, a later tree overriding an earlier one key by key; a
  command-line key that holds the unset sentinel counts as absent.
\<close>

definition strip_unset :: "config \<Rightarrow> config" where
  "strip_unset c = (\<lambda>sec k. case c sec k of Some NoConfigDefault \<Rightarrow> None | r \<Rightarrow> r)"

definition merge_config :: "config \<Rightarrow> config \<Rightarrow> config" where
  "merge_config base over = (\<lambda>sec. base sec ++ over sec)"

definition resolve :: "config \<Rightarrow> config \<Rightarrow> config \<Rightarrow> config" where
  "resolve defaultConfig fileConfig commandLineConfig =
     merge_config (merge_config (merge_config Config defaultConfig) fileConfig)
       (strip_unset commandLineConfig)"

definition merge_configs :: "'w app \<Rightarrow> 'w app" where
  "merge_configs self = self\<lparr>master_config :=
     resolve (default_config self) (file_config self) (command_line_config self)\<rparr>"

text \<open>
  Modelled from the spec: the stages LoadFile, PostFile and PreConstruct of the startup
  pipeline (section 4.3), which the base class runs in this order.
\<close>

definition config_stages :: "'w env \<Rightarrow> 'w app \<Rightarrow> 'w app result" where
  "config_stages sh self =
     and_then (and_then (load_file_config sh self) post_load_file_config)
       (\<lambda>self. Ok (pre_construct (merge_configs self)))"

section \<open>The three passes of \<open>IPythonApp.post_construct\<close>\<close>

text \<open>
  \<open>_load_extensions\<close>, \<open>_run_exec_lines\<close> and \<open>_run_exec_files\<close> (the names lose
  their leading underscore). Each is a loop inside a \<open>try\<close> whose bare \<open>except\<close>
  logs an unknown error; the first two wrap every iteration in a \<open>try\<close> of its own.
\<close>

fun load_extensions_loop :: "'w env \<Rightarrow> pyval list \<Rightarrow> 'w app \<Rightarrow> 'w app result" where
  "load_extensions_loop sh [] self = Ok self"
| "load_extensions_loop sh (ext # extensions) self =
    (let self = log_call INFO ''Loading IPython extension: %s'' [ext] self in
     case load_extension sh ext (world self) of
       Ok w \<Rightarrow> load_extensions_loop sh extensions (self\<lparr>world := w\<rparr>)
     | Raise e w \<Rightarrow>
         (let self = log_call WARN ''Error in loading extension: %s'' [ext] (self\<lparr>world := w\<rparr>);
              self = self\<lparr>world := showtraceback sh e (world self)\<rparr>
          in load_extensions_loop sh extensions self))"

definition load_extensions_try :: "'w env \<Rightarrow> 'w app \<Rightarrow> 'w app result" where
  "load_extensions_try sh self =
    (case master_config self ''Global'' ''extensions'' of
       None \<Rightarrow> Ok self
     | Some extensions \<Rightarrow>
         (let self = log_call DEBUG ''Loading IPython extensions...'' [] self in
          case py_iter extensions of
            Inl e \<Rightarrow> Raise e self
          | Inr exts \<Rightarrow> load_extensions_loop sh exts self))"

definition load_extensions :: "'w env \<Rightarrow> 'w app \<Rightarrow> 'w app result" where
  "load_extensions sh self =
    (case load_extensions_try sh self of
       Ok self \<Rightarrow> Ok self
     | Raise e self \<Rightarrow>
         (let self = log_call WARN ''Unknown error in loading extensions:'' [] self
          in Ok (self\<lparr>world := showtraceback sh e (world self)\<rparr>)))"

fun exec_lines_loop :: "'w env \<Rightarrow> pyval list \<Rightarrow> 'w app \<Rightarrow> 'w app result" where
  "exec_lines_loop sh [] self = Ok self"
| "exec_lines_loop sh (line # exec_lines) self =
    (let self = log_call INFO ''Running code in user namespace: %s'' [line] self in
     case runlines sh line (world self) of
       Ok w \<Rightarrow> exec_lines_loop sh exec_lines (self\<lparr>world := w\<rparr>)
     | Raise e w \<Rightarrow>
         (let self = log_call WARN ''Error in executing line in user namespace: %s'' [line]
                       (self\<lparr>world := w\<rparr>);
              self = self\<lparr>world := showtraceback sh e (world self)\<rparr>
          in exec_lines_loop sh exec_lines self))"

definition run_exec_lines_try :: "'w env \<Rightarrow> 'w app \<Rightarrow> 'w app result" where
  "run_exec_lines_try sh self =
    (case master_config self ''Global'' ''exec_lines'' of
       None \<Rightarrow> Ok self
     | Some exec_lines \<Rightarrow>
         (let self = log_call DEBUG ''Running code from Global.exec_lines...'' [] self in
          case py_iter exec_lines of
            Inl e \<Rightarrow> Raise e self
          | Inr ls \<Rightarrow> exec_lines_loop sh ls self))"

definition run_exec_lines :: "'w env \<Rightarrow> 'w app \<Rightarrow> 'w app result" where
  "run_exec_lines sh self =
    (case run_exec_lines_try sh self of
       Ok self \<Rightarrow> Ok self
     | Raise e self \<Rightarrow>
         (let self = log_call WARN ''Unknown error in handling Global.exec_lines:'' [] self
          in Ok (self\<lparr>world := showtraceback sh e (world self)\<rparr>)))"

text \<open>
  The loop of \<open>_run_exec_files\<close> has no \<open>try\<close> of its own: whatever \<open>filefind\<close>
  or the shell raises leaves the loop.
\<close>

fun exec_files_loop :: "'w env \<Rightarrow> pyval list \<Rightarrow> 'w app \<Rightarrow> 'w app result" where
  "exec_files_loop sh [] self = Ok self"
| "exec_files_loop sh (fname # exec_files) self =
    (case filefind sh fname [''.'', ipythondir self] (world self) of
       Inl e \<Rightarrow> Raise e self
     | Inr full_filename \<Rightarrow>
         if isfile sh full_filename (world self) then
           if endswith full_filename ''.py'' then
             (let self = log_call INFO ''Running file in user namespace: %s''
                           [VStr full_filename] self in
              case safe_execfile sh full_filename (world self) of
                Ok w \<Rightarrow> exec_files_loop sh exec_files (self\<lparr>world := w\<rparr>)
              | Raise e w \<Rightarrow> Raise e (self\<lparr>world := w\<rparr>))
           else if endswith full_filename ''.ipy'' then
             (let self = log_call INFO ''Running file in user namespace: %s''
                           [VStr full_filename] self in
              case safe_execfile_ipy sh full_filename (world self) of
                Ok w \<Rightarrow> exec_files_loop sh exec_files (self\<lparr>world := w\<rparr>)
              | Raise e w \<Rightarrow> Raise e (self\<lparr>world := w\<rparr>))
           else
             exec_files_loop sh exec_files
               (log_call WARN ''File does not have a .py or .ipy extension: <%s>''
                  [VStr full_filename] self)
         else exec_files_loop sh exec_files self)"

definition run_exec_files_try :: "'w env \<Rightarrow> 'w app \<Rightarrow> 'w app result" where
  "run_exec_files_try sh self =
    (case master_config self ''Global'' ''exec_files'' of
       None \<Rightarrow> Ok self
     | Some exec_files \<Rightarrow>
         (let self = log_call DEBUG ''Running files in Global.exec_files...'' [] self in
          case py_iter exec_files of
            Inl e \<Rightarrow> Raise e self
          | Inr fs \<Rightarrow> exec_files_loop sh fs self))"

definition run_exec_files :: "'w env \<Rightarrow> 'w app \<Rightarrow> 'w app result" where
  "run_exec_files sh self =
    (case run_exec_files_try sh self of
       Ok self \<Rightarrow> Ok self
     | Raise e self \<Rightarrow>
         (let self = log_call WARN ''Unknown error in handling Global.exec_files:'' [] self
          in Ok (self\<lparr>world := showtraceback sh e (world self)\<rparr>)))"

section \<open>\<open>IPythonApp.post_construct\<close>\<close>

text \<open>
  Reading \<open>Global.display_banner\<close> raises AttributeError when the key is absent;
  \<open>logging.INFO\<close> is 20.
\<close>

definition post_construct :: "'w env \<Rightarrow> 'w app \<Rightarrow> 'w app result" where
  "post_construct sh self =
    (let self = self\<lparr>world := set_display_banner sh False (world self)\<rparr> in
     and_then
       (case master_config self ''Global'' ''display_banner'' of
          None \<Rightarrow> Raise AttributeError self
        | Some display_banner \<Rightarrow>
            if truthy display_banner then
              (case show_banner sh (world self) of
                 Ok w \<Rightarrow> Ok (self\<lparr>world := w\<rparr>)
               | Raise e w \<Rightarrow> Raise e (self\<lparr>world := w\<rparr>))
            else Ok self)
       (\<lambda>self.
          let self = (if log_level self \<le> 20
                      then self\<lparr>world := print_newline sh (world self)\<rparr> else self)
          in and_then (load_extensions sh self)
               (\<lambda>self. and_then (run_exec_lines sh self) (run_exec_files sh))))"

section \<open>Concrete applications and collaborators\<close>

text \<open>A freshly created application: empty configurations, the log level WARN.\<close>

definition new_app :: "'w \<Rightarrow> 'w app" where
  "new_app w = \<lparr>default_config = Config, command_line_config = Config, file_config = Config,
     master_config = Config, ipythondir = ''/home/user/.ipython'', log_level = 30, log = [],
     world = w\<rparr>"

text \<open>
  A recording double of the collaborators, for concrete runs. The world is the list of
  calls made so far. \<open>failing\<close> lists the extensions, lines and files whose execution
  raises, \<open>missing\<close> the names that \<open>filefind\<close> does not find, \<open>not_files\<close> the paths
  that are no regular file, and \<open>on_disk\<close> is what the configuration file holds. A name
  that is found is found in the first directory of the search path.
\<close>

datatype call =
    SetDisplayBanner bool | ShowBanner | PrintNewline
  | LoadExtension pyval | RunLines pyval | SafeExecfile string | SafeExecfileIpy string
  | ShowTraceback exn

definition recording_env ::
    "pyval list \<Rightarrow> pyval list \<Rightarrow> string list \<Rightarrow> config \<Rightarrow> call list env" where
  "recording_env failing missing not_files on_disk =
    \<lparr>set_display_banner = (\<lambda>b w. w @ [SetDisplayBanner b]),
     show_banner = (\<lambda>w. Ok (w @ [ShowBanner])),
     print_newline = (\<lambda>w. w @ [PrintNewline]),
     load_extension = (\<lambda>x w.
       if x \<in> set failing then Raise (Raised ''ImportError'') (w @ [LoadExtension x])
       else Ok (w @ [LoadExtension x])),
     runlines = (\<lambda>x w.
       if x \<in> set failing then Raise (Raised ''SyntaxError'') (w @ [RunLines x])
       else Ok (w @ [RunLines x])),
     safe_execfile = (\<lambda>p w.
       if VStr p \<in> set failing then Raise (Raised ''Exception'') (w @ [SafeExecfile p])
       else Ok (w @ [SafeExecfile p])),
     safe_execfile_ipy = (\<lambda>p w.
       if VStr p \<in> set failing then Raise (Raised ''Exception'') (w @ [SafeExecfileIpy p])
       else Ok (w @ [SafeExecfileIpy p])),
     showtraceback = (\<lambda>e w. w @ [ShowTraceback e]),
     filefind = (\<lambda>fname path w.
       case (fname, path) of
         (VStr s, d # ds) \<Rightarrow> if fname \<in> set missing then Inl (Raised ''IOError'')
                            else Inr (d @ ''/'' @ s)
       | _ \<Rightarrow> Inl TypeError),
     isfile = (\<lambda>p w. p \<notin> set not_files),
     super_load_file_config = (\<lambda>self. Ok (self\<lparr>file_config := on_disk\<rparr>))\<rparr>"

text \<open>The warnings among the calls of the logger.\<close>

definition warnings :: "log_record list \<Rightarrow> log_record list" where
  "warnings rs = filter (\<lambda>r. case r of LogRecord lv msg args \<Rightarrow> lv = WARN) rs"

text \<open>The calls of the logger at level INFO: one before every action of a pass.\<close>

definition infos :: "log_record list \<Rightarrow> log_record list" where
  "infos rs = filter (\<lambda>r. case r of LogRecord lv msg args \<Rightarrow> lv = INFO) rs"

text \<open>
  Modelled from the spec: \<open>filefind\<close> of \<open>IPython.utils.genutils\<close>, which \<open>ipapp.py\<close>
  imports and does not define, the location of a file on a search path. The
  directories are tried in order; the first path that is a regular file is the result,
  and IOError is raised when no directory holds a regular file of that name.
\<close>

fun find_on_path :: "(string \<Rightarrow> bool) \<Rightarrow> string \<Rightarrow> string list \<Rightarrow> exn + string" where
  "find_on_path regular fname [] = Inl (Raised ''IOError'')"
| "find_on_path regular fname (d # ds) =
     (if regular (d @ ''/'' @ fname) then Inr (d @ ''/'' @ fname)
      else find_on_path regular fname ds)"

text \<open>
  The recording double on a file system: \<open>regular_files\<close> lists the paths that are
  regular files, \<open>filefind\<close> looks a name up among them and \<open>os.path.isfile\<close> tests
  membership.
\<close>

definition file_system_env :: "string list \<Rightarrow> pyval list \<Rightarrow> call list env" where
  "file_system_env regular_files failing =
    (recording_env failing [] [] Config)
      \<lparr>filefind := (\<lambda>fname path w.
         case fname of
           VStr s \<Rightarrow> find_on_path (\<lambda>p. p \<in> set regular_files) s path
         | _ \<Rightarrow> Inl TypeError),
       isfile := (\<lambda>p w. p \<in> set regular_files)\<rparr>"

section \<open>Properties of \<open>pre_construct\<close>\<close>

lemma pre_construct_Global [simp]:
  "master_config (pre_construct self) ''Global'' = master_config self ''Global''"
  by (simp add: pre_construct_def Let_def setattr_def)

lemma attr_true_setattr_other:
  "sec' \<noteq> sec \<Longrightarrow> attr_true (setattr c sec' k' v) sec k = attr_true c sec k"
  by (simp add: attr_true_def hasattr_def setattr_def)

lemma attr_true_Some: "c sec k = Some v \<Longrightarrow> attr_true c sec k = truthy v"
  by (simp add: attr_true_def hasattr_def)

lemma attr_true_None: "c sec k = None \<Longrightarrow> attr_true c sec k = False"
  by (simp add: attr_true_def hasattr_def)

lemma classic_rule_result:
  assumes cl: "master_config self ''Global'' ''classic'' = Some c" "truthy c"
    and ns: "\<forall>n. master_config self ''Global'' ''nosep'' = Some n \<longrightarrow> \<not> truthy n"
  shows "master_config (pre_construct self) =
      (master_config self)(''InteractiveShell'' := (master_config self ''InteractiveShell'')
         (''cache_size'' \<mapsto> VInt 0, ''pprint'' \<mapsto> VInt 0,
          ''prompt_in1'' \<mapsto> VStr ''>>> '', ''prompt_in2'' \<mapsto> VStr ''... '',
          ''prompt_out'' \<mapsto> VStr '''', ''separate_in'' \<mapsto> VStr '''',
          ''separate_out'' \<mapsto> VStr '''', ''separate_out2'' \<mapsto> VStr '''',
          ''colors'' \<mapsto> VStr ''NoColor'', ''xmode'' \<mapsto> VStr ''Plain''))"
proof -
  have a: "attr_true (master_config self) ''Global'' ''classic''"
    using cl by (simp add: attr_true_Some)
  have b: "\<not> attr_true (master_config self) ''Global'' ''nosep''"
    using ns by (cases "master_config self ''Global'' ''nosep''")
      (simp_all add: attr_true_Some attr_true_None)
  show ?thesis
    using a b by (simp add: pre_construct_def Let_def attr_true_setattr_other)
      (simp add: setattr_def)
qed

text \<open>
  Claim C2. When \<open>Global.classic\<close> is true in the master configuration and
  \<open>Global.nosep\<close> is not (absent or false), \<open>pre_construct\<close> leaves in the section
  \<open>InteractiveShell\<close> exactly the ten classic settings: \<open>cache_size\<close> is 0, \<open>pprint\<close>
  is false (the code stores the integer 0, which Python's \<open>==\<close> identifies with
  \<open>False\<close>), the prompts are \<open>'>>> '\<close>, \<open>'... '\<close> and \<open>''\<close>, the three separators are
  \<open>''\<close>, \<open>colors\<close> is \<open>'NoColor'\<close> and \<open>xmode\<close> is \<open>'Plain'\<close>. Every other key of
  the master configuration keeps its value, and nothing else of the application changes.
\<close>

theorem pre_construct_classic:
  assumes cl: "master_config self ''Global'' ''classic'' = Some c" "truthy c"
    and ns: "\<forall>n. master_config self ''Global'' ''nosep'' = Some n \<longrightarrow> \<not> truthy n"
  shows "master_config (pre_construct self) ''InteractiveShell'' ''cache_size'' = Some (VInt 0)
    \<and> (\<exists>p. master_config (pre_construct self) ''InteractiveShell'' ''pprint'' = Some p
          \<and> py_eq p (VBool False))
    \<and> master_config (pre_construct self) ''InteractiveShell'' ''prompt_in1'' = Some (VStr ''>>> '')
    \<and> master_config (pre_construct self) ''InteractiveShell'' ''prompt_in2'' = Some (VStr ''... '')
    \<and> master_config (pre_construct self) ''InteractiveShell'' ''prompt_out'' = Some (VStr '''')
    \<and> master_config (pre_construct self) ''InteractiveShell'' ''separate_in'' = Some (VStr '''')
    \<and> master_config (pre_construct self) ''InteractiveShell'' ''separate_out'' = Some (VStr '''')
    \<and> master_config (pre_construct self) ''InteractiveShell'' ''separate_out2'' = Some (VStr '''')
    \<and> master_config (pre_construct self) ''InteractiveShell'' ''colors'' = Some (VStr ''NoColor'')
    \<and> master_config (pre_construct self) ''InteractiveShell'' ''xmode'' = Some (VStr ''Plain'')
    \<and> (\<forall>sec k. \<not> (sec = ''InteractiveShell'' \<and>
            k \<in> {''cache_size'', ''pprint'', ''prompt_in1'', ''prompt_in2'', ''prompt_out'',
                 ''separate_in'', ''separate_out'', ''separate_out2'', ''colors'', ''xmode''})
          \<longrightarrow> master_config (pre_construct self) sec k = master_config self sec k)
    \<and> pre_construct self = self\<lparr>master_config := master_config (pre_construct self)\<rparr>"
proof -
  note eq = classic_rule_result [OF assms]
  have last: "pre_construct self = self\<lparr>master_config := master_config (pre_construct self)\<rparr>"
    by (simp add: pre_construct_def Let_def)
  have pp: "py_eq (VInt 0) (VBool False)" by (simp add: py_eq_def)
  have pprint: "\<exists>p. master_config (pre_construct self) ''InteractiveShell'' ''pprint'' = Some p
          \<and> py_eq p (VBool False)"
    using pp by (simp add: eq)
  have others: "\<forall>sec k. \<not> (sec = ''InteractiveShell'' \<and>
            k \<in> {''cache_size'', ''pprint'', ''prompt_in1'', ''prompt_in2'', ''prompt_out'',
                 ''separate_in'', ''separate_out'', ''separate_out2'', ''colors'', ''xmode''})
          \<longrightarrow> master_config (pre_construct self) sec k = master_config self sec k"
    by (simp add: eq)
  show ?thesis
    using pprint others last by (simp add: eq)
qed

theorem pre_construct_classic_witness:
  "master_config (pre_construct ((new_app ())\<lparr>master_config :=
       setattr (setattr Config ''Global'' ''classic'' (VBool True))
         ''InteractiveShell'' ''autoindent'' (VBool True)\<rparr>)) ''InteractiveShell'' ''colors''
     = Some (VStr ''NoColor'')
   \<and> master_config (pre_construct ((new_app ())\<lparr>master_config :=
       setattr (setattr Config ''Global'' ''classic'' (VBool True))
         ''InteractiveShell'' ''autoindent'' (VBool True)\<rparr>)) ''InteractiveShell'' ''separate_in''
     = Some (VStr '''')
   \<and> master_config (pre_construct ((new_app ())\<lparr>master_config :=
       setattr (setattr Config ''Global'' ''classic'' (VBool True))
         ''InteractiveShell'' ''autoindent'' (VBool True)\<rparr>)) ''InteractiveShell'' ''autoindent''
     = Some (VBool True)"
  using pre_construct_classic [of "(new_app ())\<lparr>master_config :=
       setattr (setattr Config ''Global'' ''classic'' (VBool True))
         ''InteractiveShell'' ''autoindent'' (VBool True)\<rparr>" "VBool True"]
  by (simp add: new_app_def setattr_def Config_def)

text \<open>
  Claim C3. When both \<open>Global.classic\<close> and \<open>Global.nosep\<close> are true in the master
  configuration, the three separators are \<open>'0'\<close> after \<open>pre_construct\<close> and not \<open>''\<close>:
  the nosep rule runs after the classic rule and overwrites its separators.
\<close>

theorem pre_construct_nosep_after_classic:
  assumes "master_config self ''Global'' ''classic'' = Some c" "truthy c"
    and "master_config self ''Global'' ''nosep'' = Some n" "truthy n"
  shows "master_config (pre_construct self) ''InteractiveShell'' ''separate_in'' = Some (VStr ''0'')
    \<and> master_config (pre_construct self) ''InteractiveShell'' ''separate_out'' = Some (VStr ''0'')
    \<and> master_config (pre_construct self) ''InteractiveShell'' ''separate_out2'' = Some (VStr ''0'')
    \<and> master_config (pre_construct self) ''InteractiveShell'' ''separate_in'' \<noteq> Some (VStr '''')
    \<and> master_config (pre_construct self) ''InteractiveShell'' ''separate_out'' \<noteq> Some (VStr '''')
    \<and> master_config (pre_construct self) ''InteractiveShell'' ''separate_out2'' \<noteq> Some (VStr '''')"
proof -
  have a: "attr_true (master_config self) ''Global'' ''classic''"
    using assms by (simp add: attr_true_Some)
  have b: "attr_true (master_config self) ''Global'' ''nosep''"
    using assms by (simp add: attr_true_Some)
  show ?thesis
    using a b by (simp add: pre_construct_def Let_def attr_true_setattr_other)
      (simp add: setattr_def)
qed

theorem pre_construct_nosep_after_classic_witness:
  "master_config (pre_construct ((new_app ())\<lparr>master_config :=
       setattr (setattr Config ''Global'' ''classic'' (VBool True))
         ''Global'' ''nosep'' (VBool True)\<rparr>)) ''InteractiveShell'' ''separate_out''
     = Some (VStr ''0'')"
  using pre_construct_nosep_after_classic [of "(new_app ())\<lparr>master_config :=
       setattr (setattr Config ''Global'' ''classic'' (VBool True))
         ''Global'' ''nosep'' (VBool True)\<rparr>" "VBool True" "VBool True"]
  by (simp add: new_app_def setattr_def Config_def)

section \<open>Properties of the configuration stages\<close>

text \<open>No option of the command line writes \<open>Global.extensions\<close>.\<close>

lemma cl_args_no_extensions: "(''Global'', ''extensions'') \<notin> set (dests cl_args)"
  by (simp add: cl_args_def dests_def)

lemma resolve_apply:
  "resolve d f c sec k =
     (case strip_unset c sec k of Some v \<Rightarrow> Some v
      | None \<Rightarrow> (case f sec k of Some v \<Rightarrow> Some v | None \<Rightarrow> d sec k))"
  by (simp add: resolve_def merge_config_def Config_def map_add_def split: option.splits)

lemma post_load_file_config_fresh:
  "post_load_file_config (self\<lparr>file_config := Config\<rparr>) =
     Ok (case command_line_config self ''Global'' ''extra_extension'' of
           None \<Rightarrow> self\<lparr>file_config := Config\<rparr>
         | Some x \<Rightarrow> self\<lparr>file_config := setattr Config ''Global'' ''extensions'' (VList [x]),
             command_line_config :=
               delattr (command_line_config self) ''Global'' ''extra_extension''\<rparr>)"
  by (simp add: post_load_file_config_def hasattr_def Config_def setattr_def Let_def
      split: option.splits)

text \<open>
  Claim C4. When \<open>Global.quick\<close> is true in the command-line configuration,
  \<open>load_file_config\<close> does not call the file loader of the base class and sets the file
  configuration to the empty \<open>Config()\<close>. The master configuration that the following
  stages build is then made of the default configuration, the command-line configuration
  and (when \<open>-ext\<close> was given) the one extension of the command line: it is the same
  whatever the file loader would have produced.
\<close>

theorem load_file_config_quick:
  assumes "command_line_config self ''Global'' ''quick'' = Some q" "truthy q"
  shows "load_file_config sh self = Ok (self\<lparr>file_config := Config\<rparr>)
    \<and> config_stages sh self =
        Ok (pre_construct (merge_configs
          (case command_line_config self ''Global'' ''extra_extension'' of
             None \<Rightarrow> self\<lparr>file_config := Config\<rparr>
           | Some x \<Rightarrow> self\<lparr>file_config := setattr Config ''Global'' ''extensions'' (VList [x]),
               command_line_config :=
                 delattr (command_line_config self) ''Global'' ''extra_extension''\<rparr>)))
    \<and> config_stages sh self = config_stages sh' self"
proof -
  have q: "attr_true (command_line_config self) ''Global'' ''quick''"
    using assms by (simp add: attr_true_Some)
  have l: "load_file_config sh self = Ok (self\<lparr>file_config := Config\<rparr>)" for sh :: "'a env"
    using q by (simp add: load_file_config_def)
  have s: "config_stages sh self =
        Ok (pre_construct (merge_configs
          (case command_line_config self ''Global'' ''extra_extension'' of
             None \<Rightarrow> self\<lparr>file_config := Config\<rparr>
           | Some x \<Rightarrow> self\<lparr>file_config := setattr Config ''Global'' ''extensions'' (VList [x]),
               command_line_config :=
                 delattr (command_line_config self) ''Global'' ''extra_extension''\<rparr>)))"
    for sh :: "'a env"
    by (simp add: config_stages_def l and_then_def post_load_file_config_fresh)
  show ?thesis
    using l [of sh] s [of sh] s [of sh'] by simp
qed

theorem load_file_config_quick_witness:
  "load_file_config
       (recording_env [] [] [] (setattr Config ''InteractiveShell'' ''colors'' (VStr ''Linux'')))
       ((new_app [])\<lparr>command_line_config := setattr Config ''Global'' ''quick'' (VBool True)\<rparr>)
     = Ok ((new_app [])\<lparr>command_line_config := setattr Config ''Global'' ''quick'' (VBool True),
             file_config := Config\<rparr>)
   \<and> config_stages
       (recording_env [] [] [] (setattr Config ''InteractiveShell'' ''colors'' (VStr ''Linux'')))
       ((new_app [])\<lparr>command_line_config := setattr Config ''Global'' ''quick'' (VBool True)\<rparr>)
     = config_stages (recording_env [] [] [] Config)
       ((new_app [])\<lparr>command_line_config := setattr Config ''Global'' ''quick'' (VBool True)\<rparr>)"
proof -
  let ?A = "(new_app [])\<lparr>command_line_config := setattr Config ''Global'' ''quick'' (VBool True)\<rparr>"
  have q: "command_line_config ?A ''Global'' ''quick'' = Some (VBool True)"
    by (simp add: setattr_def)
  have t: "truthy (VBool True)"
    by simp
  from load_file_config_quick [OF q t] show ?thesis
    by blast
qed

text \<open>
  Claim C5. When \<open>Global.extra_extension\<close> is present in the command-line configuration
  and \<open>Global.extensions\<close> of the file configuration is absent or a list,
  \<open>post_load_file_config\<close> appends the value to that list (starting from the empty list
  when the key is absent) and deletes \<open>extra_extension\<close> from the command-line
  configuration. With no \<open>extensions\<close> key on the command line, the resolved master
  configuration (merged, then passed through \<open>pre_construct\<close>) holds that list: \<open>['foo']\<close> for \<open>-ext foo\<close> and a file
  configuration without \<open>extensions\<close>.
\<close>

theorem post_load_file_config_extra_extension:
  assumes "command_line_config self ''Global'' ''extra_extension'' = Some x"
    and "file_config self ''Global'' ''extensions'' = None \<and> xs = []
       \<or> file_config self ''Global'' ''extensions'' = Some (VList xs)"
  shows "post_load_file_config self =
      Ok (self\<lparr>file_config := setattr (file_config self) ''Global'' ''extensions'' (VList (xs @ [x])),
            command_line_config :=
              delattr (command_line_config self) ''Global'' ''extra_extension''\<rparr>)
    \<and> delattr (command_line_config self) ''Global'' ''extra_extension''
         ''Global'' ''extra_extension'' = None
    \<and> (command_line_config self ''Global'' ''extensions'' = None \<longrightarrow>
         master_config (pre_construct (merge_configs
           (self\<lparr>file_config := setattr (file_config self) ''Global'' ''extensions'' (VList (xs @ [x])),
              command_line_config :=
                delattr (command_line_config self) ''Global'' ''extra_extension''\<rparr>)))
           ''Global'' ''extensions'' = Some (VList (xs @ [x])))"
proof -
  have p: "post_load_file_config self =
      Ok (self\<lparr>file_config := setattr (file_config self) ''Global'' ''extensions'' (VList (xs @ [x])),
            command_line_config :=
              delattr (command_line_config self) ''Global'' ''extra_extension''\<rparr>)"
    using assms
    by (auto simp add: post_load_file_config_def hasattr_def setattr_def Let_def)
  have d: "delattr (command_line_config self) ''Global'' ''extra_extension''
         ''Global'' ''extra_extension'' = None"
    by (simp add: delattr_def)
  have m: "master_config (pre_construct (merge_configs
           (self\<lparr>file_config := setattr (file_config self) ''Global'' ''extensions'' (VList (xs @ [x])),
              command_line_config :=
                delattr (command_line_config self) ''Global'' ''extra_extension''\<rparr>)))
           ''Global'' ''extensions'' = Some (VList (xs @ [x]))"
    if "command_line_config self ''Global'' ''extensions'' = None"
    using that
    by (simp add: merge_configs_def resolve_apply strip_unset_def delattr_def setattr_def)
  from p d m show ?thesis by blast
qed

theorem post_load_file_config_extra_extension_witness:
  "post_load_file_config
       ((new_app ())\<lparr>command_line_config :=
           setattr Config ''Global'' ''extra_extension'' (VStr ''foo'')\<rparr>)
     = Ok ((new_app ())\<lparr>command_line_config :=
               delattr (setattr Config ''Global'' ''extra_extension'' (VStr ''foo''))
                 ''Global'' ''extra_extension'',
             file_config := setattr Config ''Global'' ''extensions'' (VList [VStr ''foo''])\<rparr>)
   \<and> master_config (pre_construct (merge_configs
        ((new_app ())\<lparr>command_line_config :=
               delattr (setattr Config ''Global'' ''extra_extension'' (VStr ''foo''))
                 ''Global'' ''extra_extension'',
             file_config := setattr Config ''Global'' ''extensions'' (VList [VStr ''foo''])\<rparr>)))
        ''Global'' ''extensions''
     = Some (VList [VStr ''foo''])"
proof -
  let ?A = "(new_app ())\<lparr>command_line_config :=
           setattr Config ''Global'' ''extra_extension'' (VStr ''foo'')\<rparr>"
  have x: "command_line_config ?A ''Global'' ''extra_extension'' = Some (VStr ''foo'')"
    by (simp add: setattr_def)
  have f: "file_config ?A ''Global'' ''extensions'' = None \<and> [] = []
       \<or> file_config ?A ''Global'' ''extensions'' = Some (VList [])"
    by (simp add: new_app_def Config_def)
  have c: "command_line_config ?A ''Global'' ''extensions'' = None"
    by (simp add: setattr_def Config_def)
  from post_load_file_config_extra_extension [OF x f] c show ?thesis
    by (simp add: new_app_def)
qed

text \<open>
  Claim C9. The merged configuration follows the precedence default, file, command
  line: a key that the command line gives a value other than the unset sentinel has the
  command line's value; a key that the command line leaves absent or at the sentinel
  has the file's value when the file has it, and the default's value (or none)
  otherwise. So the sentinel never overrides a value of the file or the defaults.
\<close>

theorem resolve_precedence:
  "(commandLineConfig sec k = Some v \<and> v \<noteq> NoConfigDefault
      \<longrightarrow> resolve defaultConfig fileConfig commandLineConfig sec k = Some v)
   \<and> ((commandLineConfig sec k = None \<or> commandLineConfig sec k = Some NoConfigDefault)
        \<and> fileConfig sec k = Some v
      \<longrightarrow> resolve defaultConfig fileConfig commandLineConfig sec k = Some v)
   \<and> ((commandLineConfig sec k = None \<or> commandLineConfig sec k = Some NoConfigDefault)
        \<and> fileConfig sec k = None
      \<longrightarrow> resolve defaultConfig fileConfig commandLineConfig sec k = defaultConfig sec k)"
  by (cases v) (auto simp add: resolve_apply strip_unset_def)

theorem resolve_precedence_witness:
  "resolve (setattr (setattr Config ''InteractiveShell'' ''colors'' (VStr ''Linux''))
              ''Global'' ''display_banner'' (VBool True))
           (setattr (setattr Config ''InteractiveShell'' ''colors'' (VStr ''LightBG''))
              ''InteractiveShell'' ''xmode'' (VStr ''Context''))
           (setattr (setattr Config ''InteractiveShell'' ''colors'' (VStr ''NoColor''))
              ''InteractiveShell'' ''xmode'' NoConfigDefault)
           ''InteractiveShell'' ''colors'' = Some (VStr ''NoColor'')
   \<and> resolve (setattr (setattr Config ''InteractiveShell'' ''colors'' (VStr ''Linux''))
              ''Global'' ''display_banner'' (VBool True))
           (setattr (setattr Config ''InteractiveShell'' ''colors'' (VStr ''LightBG''))
              ''InteractiveShell'' ''xmode'' (VStr ''Context''))
           (setattr (setattr Config ''InteractiveShell'' ''colors'' (VStr ''NoColor''))
              ''InteractiveShell'' ''xmode'' NoConfigDefault)
           ''InteractiveShell'' ''xmode'' = Some (VStr ''Context'')
   \<and> resolve (setattr (setattr Config ''InteractiveShell'' ''colors'' (VStr ''Linux''))
              ''Global'' ''display_banner'' (VBool True))
           (setattr (setattr Config ''InteractiveShell'' ''colors'' (VStr ''LightBG''))
              ''InteractiveShell'' ''xmode'' (VStr ''Context''))
           (setattr (setattr Config ''InteractiveShell'' ''colors'' (VStr ''NoColor''))
              ''InteractiveShell'' ''xmode'' NoConfigDefault)
           ''Global'' ''display_banner'' = Some (VBool True)"
proof -
  let ?d = "setattr (setattr Config ''InteractiveShell'' ''colors'' (VStr ''Linux''))
              ''Global'' ''display_banner'' (VBool True)"
  let ?f = "setattr (setattr Config ''InteractiveShell'' ''colors'' (VStr ''LightBG''))
              ''InteractiveShell'' ''xmode'' (VStr ''Context'')"
  let ?c = "setattr (setattr Config ''InteractiveShell'' ''colors'' (VStr ''NoColor''))
              ''InteractiveShell'' ''xmode'' NoConfigDefault"
  have 1: "resolve ?d ?f ?c ''InteractiveShell'' ''colors'' = Some (VStr ''NoColor'')"
    using resolve_precedence [of ?c "''InteractiveShell''" "''colors''" "VStr ''NoColor''" ?d ?f]
    by (simp add: setattr_def Config_def)
  have 2: "resolve ?d ?f ?c ''InteractiveShell'' ''xmode'' = Some (VStr ''Context'')"
    using resolve_precedence [of ?c "''InteractiveShell''" "''xmode''" "VStr ''Context''" ?d ?f]
    by (simp add: setattr_def Config_def)
  have 3: "resolve ?d ?f ?c ''Global'' ''display_banner'' = Some (VBool True)"
    using resolve_precedence [of ?c "''Global''" "''display_banner''" "VBool True" ?d ?f]
    by (simp add: setattr_def Config_def)
  from 1 2 3 show ?thesis by simp
qed

section \<open>Properties of the three passes\<close>

lemma log_call_fields [simp]:
  "world (log_call lv msg args self) = world self"
  "ipythondir (log_call lv msg args self) = ipythondir self"
  "master_config (log_call lv msg args self) = master_config self"
  "log (log_call lv msg args self) = log self @ [LogRecord lv msg args]"
  by (simp_all add: log_call_def)

lemma load_extensions_loop_returns:
  "\<exists>self'. load_extensions_loop sh exts self = Ok self'"
proof (induction exts arbitrary: self)
  case Nil
  show ?case by simp
next
  case (Cons ext exts)
  show ?case
  proof (cases "load_extension sh ext (world self)")
    case (Ok w)
    with Cons.IH show ?thesis by (simp add: Let_def)
  next
    case (Raise e w)
    with Cons.IH show ?thesis by (simp add: Let_def)
  qed
qed

lemma exec_lines_loop_returns:
  "\<exists>self'. exec_lines_loop sh ls self = Ok self'"
proof (induction ls arbitrary: self)
  case Nil
  show ?case by simp
next
  case (Cons l ls)
  show ?case
  proof (cases "runlines sh l (world self)")
    case (Ok w)
    with Cons.IH show ?thesis by (simp add: Let_def)
  next
    case (Raise e w)
    with Cons.IH show ?thesis by (simp add: Let_def)
  qed
qed

lemma load_extensions_returns: "\<exists>self'. load_extensions sh self = Ok self'"
  by (cases "load_extensions_try sh self") (simp_all add: load_extensions_def Let_def)

lemma run_exec_lines_returns: "\<exists>self'. run_exec_lines sh self = Ok self'"
  by (cases "run_exec_lines_try sh self") (simp_all add: run_exec_lines_def Let_def)

lemma run_exec_files_returns: "\<exists>self'. run_exec_files sh self = Ok self'"
  by (cases "run_exec_files_try sh self") (simp_all add: run_exec_files_def Let_def)

lemma exec_files_loop_append:
  "exec_files_loop sh (xs @ ys) self =
     and_then (exec_files_loop sh xs self) (exec_files_loop sh ys)"
proof (induction xs arbitrary: self)
  case Nil
  show ?case by (simp add: and_then_def)
next
  case (Cons x xs)
  then show ?case
    by (simp add: and_then_def Let_def split: sum.splits result.splits)
qed

lemma load_extensions_loop_append:
  "load_extensions_loop sh (xs @ ys) self =
     and_then (load_extensions_loop sh xs self) (load_extensions_loop sh ys)"
proof (induction xs arbitrary: self)
  case Nil
  show ?case by (simp add: and_then_def)
next
  case (Cons x xs)
  then show ?case
    by (simp add: Let_def split: result.splits)
qed

lemma exec_lines_loop_append:
  "exec_lines_loop sh (xs @ ys) self =
     and_then (exec_lines_loop sh xs self) (exec_lines_loop sh ys)"
proof (induction xs arbitrary: self)
  case Nil
  show ?case by (simp add: and_then_def)
next
  case (Cons x xs)
  then show ?case
    by (simp add: Let_def split: result.splits)
qed

text \<open>
  Claim C8. With the extensions \<open>[a, b, c]\<close>, where loading \<open>a\<close> and \<open>c\<close> returns and
  loading \<open>b\<close> raises, \<open>_load_extensions\<close> returns normally; \<open>c\<close> is loaded after the
  traceback of \<open>b\<close> was shown, and its load completes (the final world is the one that
  loading \<open>c\<close> leaves); the pass logs exactly one warning, the one that names \<open>b\<close>.
\<close>

theorem load_extensions_isolates_failure:
  assumes "master_config self ''Global'' ''extensions'' = Some (VList [a, b, c])"
    and "load_extension sh a (world self) = Ok w1"
    and "load_extension sh b w1 = Raise e w2"
    and "load_extension sh c (showtraceback sh e w2) = Ok w3"
  shows "load_extensions sh self =
      Ok (self\<lparr>log := log self @
            [LogRecord DEBUG ''Loading IPython extensions...'' [],
             LogRecord INFO ''Loading IPython extension: %s'' [a],
             LogRecord INFO ''Loading IPython extension: %s'' [b],
             LogRecord WARN ''Error in loading extension: %s'' [b],
             LogRecord INFO ''Loading IPython extension: %s'' [c]],
           world := w3\<rparr>)
    \<and> warnings
          [LogRecord DEBUG ''Loading IPython extensions...'' [],
           LogRecord INFO ''Loading IPython extension: %s'' [a],
           LogRecord INFO ''Loading IPython extension: %s'' [b],
           LogRecord WARN ''Error in loading extension: %s'' [b],
           LogRecord INFO ''Loading IPython extension: %s'' [c]]
        = [LogRecord WARN ''Error in loading extension: %s'' [b]]"
  using assms
  by (simp add: load_extensions_def load_extensions_try_def Let_def log_call_def warnings_def)

theorem load_extensions_isolates_failure_witness:
  "load_extensions (recording_env [VStr ''b''] [] [] Config)
      ((new_app [])\<lparr>master_config :=
          setattr Config ''Global'' ''extensions'' (VList [VStr ''a'', VStr ''b'', VStr ''c''])\<rparr>)
    = Ok ((new_app [])\<lparr>master_config :=
          setattr Config ''Global'' ''extensions'' (VList [VStr ''a'', VStr ''b'', VStr ''c'']),
          log :=
            [LogRecord DEBUG ''Loading IPython extensions...'' [],
             LogRecord INFO ''Loading IPython extension: %s'' [VStr ''a''],
             LogRecord INFO ''Loading IPython extension: %s'' [VStr ''b''],
             LogRecord WARN ''Error in loading extension: %s'' [VStr ''b''],
             LogRecord INFO ''Loading IPython extension: %s'' [VStr ''c'']],
          world := [LoadExtension (VStr ''a''), LoadExtension (VStr ''b''),
                    ShowTraceback (Raised ''ImportError''), LoadExtension (VStr ''c'')]\<rparr>)"
proof -
  let ?A = "(new_app [])\<lparr>master_config :=
          setattr Config ''Global'' ''extensions'' (VList [VStr ''a'', VStr ''b'', VStr ''c''])\<rparr>"
  let ?sh = "recording_env [VStr ''b''] [] [] Config"
  have m: "master_config ?A ''Global'' ''extensions'' = Some (VList [VStr ''a'', VStr ''b'', VStr ''c''])"
    by (simp add: setattr_def)
  have a: "load_extension ?sh (VStr ''a'') (world ?A) = Ok [LoadExtension (VStr ''a'')]"
    by (simp add: recording_env_def new_app_def)
  have b: "load_extension ?sh (VStr ''b'') [LoadExtension (VStr ''a'')]
      = Raise (Raised ''ImportError'') [LoadExtension (VStr ''a''), LoadExtension (VStr ''b'')]"
    by (simp add: recording_env_def)
  have c: "load_extension ?sh (VStr ''c'')
        (showtraceback ?sh (Raised ''ImportError'')
           [LoadExtension (VStr ''a''), LoadExtension (VStr ''b'')])
      = Ok [LoadExtension (VStr ''a''), LoadExtension (VStr ''b''),
            ShowTraceback (Raised ''ImportError''), LoadExtension (VStr ''c'')]"
    by (simp add: recording_env_def)
  from load_extensions_isolates_failure [OF m a b c] show ?thesis
    by (simp add: new_app_def)
qed

text \<open>
  The guard of line 410: were \<open>filefind\<close> to return a path that is no regular file,
  the loop would skip the name without a trace and go on with the remaining names from
  the same state.
\<close>

lemma exec_files_loop_isfile_guard:
  assumes "exec_files_loop sh before self0 = Ok self"
    and "filefind sh fname [''.'', ipythondir self] (world self) = Inr full_filename"
    and "\<not> isfile sh full_filename (world self)"
  shows "exec_files_loop sh (fname # rest) self = exec_files_loop sh rest self
    \<and> exec_files_loop sh (before @ fname # rest) self0 = exec_files_loop sh (before @ rest) self0"
proof -
  have step: "exec_files_loop sh (fname # rest) self = exec_files_loop sh rest self"
    using assms(2,3) by simp
  have "exec_files_loop sh (before @ fname # rest) self0 = exec_files_loop sh (fname # rest) self"
    using assms(1) by (simp only: exec_files_loop_append and_then_def result.case)
  moreover have "exec_files_loop sh (before @ rest) self0 = exec_files_loop sh rest self"
    using assms(1) by (simp only: exec_files_loop_append and_then_def result.case)
  ultimately show ?thesis
    using step by simp
qed

text \<open>
  \<open>filefind\<close> returns only paths that are regular files, so the guard never rejects
  what it returns: a name with no regular file on the search path makes \<open>filefind\<close>
  raise instead.
\<close>

lemma find_on_path_regular:
  "find_on_path regular fname path = Inr p \<Longrightarrow> regular p"
  by (induction path) (auto split: if_splits)

lemma find_on_path_none:
  "\<forall>d \<in> set path. \<not> regular (d @ ''/'' @ fname) \<Longrightarrow>
     find_on_path regular fname path = Inl (Raised ''IOError'')"
  by (induction path) auto

lemma file_system_env_isfile:
  "filefind (file_system_env regular_files failing) fname path w = Inr p \<Longrightarrow>
     isfile (file_system_env regular_files failing) p w"
  by (cases fname) (auto simp add: file_system_env_def dest: find_on_path_regular)


lemma endswith_ipy_not_py: "endswith s ''.ipy'' \<Longrightarrow> \<not> endswith s ''.py''"
proof
  assume a: "endswith s ''.ipy''" and b: "endswith s ''.py''"
  from a have "take (length ''.ipy'') (rev s) = rev ''.ipy''"
    unfolding endswith_def .
  then have "take 3 (take (length ''.ipy'') (rev s)) = take 3 (rev ''.ipy'')"
    by (rule arg_cong)
  then have "take 3 (rev s) = ''ypi''"
    by (simp add: take_Suc_Cons numeral_3_eq_3)
  moreover from b have "take 3 (rev s) = ''yp.''"
    by (simp add: endswith_def numeral_3_eq_3)
  ultimately show False
    by simp
qed

text \<open>
  Claim C6. In the loop of \<open>_run_exec_files\<close>, a name is first passed to \<open>filefind\<close>
  with the search path \<open>['.', ipythondir]\<close>; when the path found is a regular file, it
  is dispatched on its extension: a path ending in \<open>.py\<close> is logged and run by
  \<open>safe_execfile\<close>, a path ending in \<open>.ipy\<close> is logged and run by
  \<open>safe_execfile_ipy\<close>, and for any other path the loop only logs the warning that
  the file has no \<open>.py\<close> or \<open>.ipy\<close> extension and goes on with the remaining names.
  Whatever happens in the loop, \<open>_run_exec_files\<close> itself returns normally: no
  exception escapes the pass.
\<close>

theorem exec_files_loop_dispatch:
  assumes "filefind sh fname [''.'', ipythondir self] (world self) = Inr full_filename"
    and "isfile sh full_filename (world self)"
  shows "(endswith full_filename ''.py'' \<longrightarrow>
        exec_files_loop sh (fname # rest) self =
          (case safe_execfile sh full_filename (world self) of
             Ok w \<Rightarrow> exec_files_loop sh rest
               (self\<lparr>log := log self @
                  [LogRecord INFO ''Running file in user namespace: %s'' [VStr full_filename]],
                  world := w\<rparr>)
           | Raise e w \<Rightarrow> Raise e
               (self\<lparr>log := log self @
                  [LogRecord INFO ''Running file in user namespace: %s'' [VStr full_filename]],
                  world := w\<rparr>)))
    \<and> (endswith full_filename ''.ipy'' \<longrightarrow>
        exec_files_loop sh (fname # rest) self =
          (case safe_execfile_ipy sh full_filename (world self) of
             Ok w \<Rightarrow> exec_files_loop sh rest
               (self\<lparr>log := log self @
                  [LogRecord INFO ''Running file in user namespace: %s'' [VStr full_filename]],
                  world := w\<rparr>)
           | Raise e w \<Rightarrow> Raise e
               (self\<lparr>log := log self @
                  [LogRecord INFO ''Running file in user namespace: %s'' [VStr full_filename]],
                  world := w\<rparr>)))
    \<and> (\<not> endswith full_filename ''.py'' \<and> \<not> endswith full_filename ''.ipy'' \<longrightarrow>
        exec_files_loop sh (fname # rest) self =
          exec_files_loop sh rest
            (self\<lparr>log := log self @
               [LogRecord WARN ''File does not have a .py or .ipy extension: <%s>''
                  [VStr full_filename]]\<rparr>))
    \<and> (\<exists>self'. run_exec_files sh self = Ok self')"
proof -
  have py: "exec_files_loop sh (fname # rest) self =
          (case safe_execfile sh full_filename (world self) of
             Ok w \<Rightarrow> exec_files_loop sh rest
               (self\<lparr>log := log self @
                  [LogRecord INFO ''Running file in user namespace: %s'' [VStr full_filename]],
                  world := w\<rparr>)
           | Raise e w \<Rightarrow> Raise e
               (self\<lparr>log := log self @
                  [LogRecord INFO ''Running file in user namespace: %s'' [VStr full_filename]],
                  world := w\<rparr>))"
    if "endswith full_filename ''.py''"
    using assms that by (simp add: Let_def log_call_def split: result.splits)
  have ipy: "exec_files_loop sh (fname # rest) self =
          (case safe_execfile_ipy sh full_filename (world self) of
             Ok w \<Rightarrow> exec_files_loop sh rest
               (self\<lparr>log := log self @
                  [LogRecord INFO ''Running file in user namespace: %s'' [VStr full_filename]],
                  world := w\<rparr>)
           | Raise e w \<Rightarrow> Raise e
               (self\<lparr>log := log self @
                  [LogRecord INFO ''Running file in user namespace: %s'' [VStr full_filename]],
                  world := w\<rparr>))"
    if "endswith full_filename ''.ipy''"
    using assms that endswith_ipy_not_py [OF that]
    by (simp add: Let_def log_call_def split: result.splits)
  have other: "exec_files_loop sh (fname # rest) self =
          exec_files_loop sh rest
            (self\<lparr>log := log self @
               [LogRecord WARN ''File does not have a .py or .ipy extension: <%s>''
                  [VStr full_filename]]\<rparr>)"
    if "\<not> endswith full_filename ''.py''" "\<not> endswith full_filename ''.ipy''"
    using assms that by (simp add: log_call_def)
  from py ipy other run_exec_files_returns [of sh self] show ?thesis
    by blast
qed

theorem exec_files_loop_dispatch_witness:
  "run_exec_files (recording_env [] [] [] Config)
      ((new_app [])\<lparr>master_config := setattr Config ''Global'' ''exec_files''
          (VList [VStr ''a.py'', VStr ''b.ipy'', VStr ''c.txt''])\<rparr>)
    = Ok ((new_app [])\<lparr>master_config := setattr Config ''Global'' ''exec_files''
          (VList [VStr ''a.py'', VStr ''b.ipy'', VStr ''c.txt'']),
        log := [LogRecord DEBUG ''Running files in Global.exec_files...'' [],
                LogRecord INFO ''Running file in user namespace: %s'' [VStr ''./a.py''],
                LogRecord INFO ''Running file in user namespace: %s'' [VStr ''./b.ipy''],
                LogRecord WARN ''File does not have a .py or .ipy extension: <%s>''
                  [VStr ''./c.txt'']],
        world := [SafeExecfile ''./a.py'', SafeExecfileIpy ''./b.ipy'']\<rparr>)
   \<and> exec_files_loop (recording_env [] [] [] Config) [VStr ''c.txt''] (new_app [])
    = Ok ((new_app [])\<lparr>log :=
        [LogRecord WARN ''File does not have a .py or .ipy extension: <%s>''
           [VStr ''./c.txt'']]\<rparr>)"
proof -
  let ?sh = "recording_env [] [] [] Config"
  let ?A = "new_app [] :: call list app"
  have f: "filefind ?sh (VStr ''c.txt'') [''.'', ipythondir ?A] (world ?A) = Inr ''./c.txt''"
    by (simp add: recording_env_def)
  have i: "isfile ?sh ''./c.txt'' (world ?A)"
    by (simp add: recording_env_def)
  have n: "\<not> endswith ''./c.txt'' ''.py'' \<and> \<not> endswith ''./c.txt'' ''.ipy''"
    by (simp add: endswith_def)
  have r: "run_exec_files ?sh
      (?A\<lparr>master_config := setattr Config ''Global'' ''exec_files''
          (VList [VStr ''a.py'', VStr ''b.ipy'', VStr ''c.txt''])\<rparr>)
    = Ok (?A\<lparr>master_config := setattr Config ''Global'' ''exec_files''
          (VList [VStr ''a.py'', VStr ''b.ipy'', VStr ''c.txt'']),
        log := [LogRecord DEBUG ''Running files in Global.exec_files...'' [],
                LogRecord INFO ''Running file in user namespace: %s'' [VStr ''./a.py''],
                LogRecord INFO ''Running file in user namespace: %s'' [VStr ''./b.ipy''],
                LogRecord WARN ''File does not have a .py or .ipy extension: <%s>''
                  [VStr ''./c.txt'']],
        world := [SafeExecfile ''./a.py'', SafeExecfileIpy ''./b.ipy'']\<rparr>)"
    by (simp add: run_exec_files_def run_exec_files_try_def setattr_def Let_def
        recording_env_def new_app_def endswith_def log_call_def)
  from exec_files_loop_dispatch [OF f i, of "[]"] n r show ?thesis
    by (simp add: new_app_def)
qed

lemma load_extensions_not_iterable:
  assumes "master_config self ''Global'' ''extensions'' = Some v" and "py_iter v = Inl e"
  shows "load_extensions sh self =
      Ok (self\<lparr>log := log self @
            [LogRecord DEBUG ''Loading IPython extensions...'' [],
             LogRecord WARN ''Unknown error in loading extensions:'' []],
           world := showtraceback sh e (world self)\<rparr>)"
  using assms by (simp add: load_extensions_def load_extensions_try_def Let_def log_call_def)

lemma run_exec_lines_not_iterable:
  assumes "master_config self ''Global'' ''exec_lines'' = Some v" and "py_iter v = Inl e"
  shows "run_exec_lines sh self =
      Ok (self\<lparr>log := log self @
            [LogRecord DEBUG ''Running code from Global.exec_lines...'' [],
             LogRecord WARN ''Unknown error in handling Global.exec_lines:'' []],
           world := showtraceback sh e (world self)\<rparr>)"
  using assms by (simp add: run_exec_lines_def run_exec_lines_try_def Let_def log_call_def)

lemma run_exec_files_not_iterable:
  assumes "master_config self ''Global'' ''exec_files'' = Some v" and "py_iter v = Inl e"
  shows "run_exec_files sh self =
      Ok (self\<lparr>log := log self @
            [LogRecord DEBUG ''Running files in Global.exec_files...'' [],
             LogRecord WARN ''Unknown error in handling Global.exec_files:'' []],
           world := showtraceback sh e (world self)\<rparr>)"
  using assms by (simp add: run_exec_files_def run_exec_files_try_def Let_def log_call_def)

lemma post_construct_passes:
  assumes "master_config self ''Global'' ''display_banner'' = Some b"
    and "(if truthy b then show_banner sh (set_display_banner sh False (world self))
          else Ok (set_display_banner sh False (world self))) = Ok w0"
    and "w1 = (if log_level self \<le> 20 then print_newline sh w0 else w0)"
  shows "post_construct sh self =
      and_then (load_extensions sh (self\<lparr>world := w1\<rparr>))
        (\<lambda>self. and_then (run_exec_lines sh self) (run_exec_files sh))"
proof (cases "truthy b")
  case True
  with assms show ?thesis
    by (simp add: post_construct_def Let_def and_then_def)
next
  case False
  with assms show ?thesis
    by (simp add: post_construct_def Let_def and_then_def)
qed

text \<open>
  Claim C7. Each pass has an outer guard. When the value of \<open>Global.extensions\<close> is
  not iterable, \<open>_load_extensions\<close> logs the warning of an unknown error in loading
  extensions, shows the traceback and returns normally; \<open>_run_exec_lines\<close> and
  \<open>_run_exec_files\<close> do the same for \<open>Global.exec_lines\<close> and \<open>Global.exec_files\<close>.
  In \<open>post_construct\<close> (once the banner is shown), such a failure of the extensions
  pass does not stop the later passes: the statements pass and then the files pass run
  from the state that the guard leaves, both return, and so does \<open>post_construct\<close>.
\<close>

theorem outer_guard_keeps_later_passes:
  assumes "master_config self ''Global'' ''extensions'' = Some v" and "py_iter v = Inl e"
    and "master_config self ''Global'' ''display_banner'' = Some b"
    and "(if truthy b then show_banner sh (set_display_banner sh False (world self))
          else Ok (set_display_banner sh False (world self))) = Ok w0"
    and "w1 = (if log_level self \<le> 20 then print_newline sh w0 else w0)"
    and "guarded = self\<lparr>log := log self @
            [LogRecord DEBUG ''Loading IPython extensions...'' [],
             LogRecord WARN ''Unknown error in loading extensions:'' []],
           world := showtraceback sh e w1\<rparr>"
  shows "load_extensions sh (self\<lparr>world := w1\<rparr>) = Ok guarded
    \<and> post_construct sh self = and_then (run_exec_lines sh guarded) (run_exec_files sh)
    \<and> (\<exists>s2 s3. run_exec_lines sh guarded = Ok s2 \<and> run_exec_files sh s2 = Ok s3
          \<and> post_construct sh self = Ok s3)
    \<and> (\<forall>v' e'. master_config self ''Global'' ''exec_lines'' = Some v' \<and> py_iter v' = Inl e'
          \<longrightarrow> run_exec_lines sh self =
            Ok (self\<lparr>log := log self @
                  [LogRecord DEBUG ''Running code from Global.exec_lines...'' [],
                   LogRecord WARN ''Unknown error in handling Global.exec_lines:'' []],
                 world := showtraceback sh e' (world self)\<rparr>))
    \<and> (\<forall>v' e'. master_config self ''Global'' ''exec_files'' = Some v' \<and> py_iter v' = Inl e'
          \<longrightarrow> run_exec_files sh self =
            Ok (self\<lparr>log := log self @
                  [LogRecord DEBUG ''Running files in Global.exec_files...'' [],
                   LogRecord WARN ''Unknown error in handling Global.exec_files:'' []],
                 world := showtraceback sh e' (world self)\<rparr>))"
proof -
  have ext: "load_extensions sh (self\<lparr>world := w1\<rparr>) = Ok guarded"
    using load_extensions_not_iterable [of "self\<lparr>world := w1\<rparr>" v e sh] assms(1,2,6)
    by simp
  have pc: "post_construct sh self = and_then (run_exec_lines sh guarded) (run_exec_files sh)"
    using post_construct_passes [OF assms(3,4,5)] ext by (simp add: and_then_def)
  obtain s2 where s2: "run_exec_lines sh guarded = Ok s2"
    using run_exec_lines_returns by blast
  obtain s3 where s3: "run_exec_files sh s2 = Ok s3"
    using run_exec_files_returns by blast
  have fin: "post_construct sh self = Ok s3"
    using pc s2 s3 by (simp add: and_then_def)
  have later: "\<exists>s2 s3. run_exec_lines sh guarded = Ok s2 \<and> run_exec_files sh s2 = Ok s3
          \<and> post_construct sh self = Ok s3"
    using s2 s3 fin by blast
  show ?thesis
    by (intro conjI allI impI ext pc later)
      (simp_all add: run_exec_lines_not_iterable run_exec_files_not_iterable)
qed

theorem outer_guard_keeps_later_passes_witness:
  "post_construct (recording_env [] [] [] Config)
      ((new_app [])\<lparr>master_config :=
         setattr (setattr (setattr (setattr Config
           ''Global'' ''display_banner'' (VBool True))
           ''Global'' ''extensions'' (VInt 3))
           ''Global'' ''exec_lines'' (VList [VStr ''x = 1'']))
           ''Global'' ''exec_files'' (VList [VStr ''a.py''])\<rparr>)
    = Ok ((new_app [])\<lparr>master_config :=
         setattr (setattr (setattr (setattr Config
           ''Global'' ''display_banner'' (VBool True))
           ''Global'' ''extensions'' (VInt 3))
           ''Global'' ''exec_lines'' (VList [VStr ''x = 1'']))
           ''Global'' ''exec_files'' (VList [VStr ''a.py'']),
        log := [LogRecord DEBUG ''Loading IPython extensions...'' [],
                LogRecord WARN ''Unknown error in loading extensions:'' [],
                LogRecord DEBUG ''Running code from Global.exec_lines...'' [],
                LogRecord INFO ''Running code in user namespace: %s'' [VStr ''x = 1''],
                LogRecord DEBUG ''Running files in Global.exec_files...'' [],
                LogRecord INFO ''Running file in user namespace: %s'' [VStr ''./a.py'']],
        world := [SetDisplayBanner False, ShowBanner, ShowTraceback TypeError,
                  RunLines (VStr ''x = 1''), SafeExecfile ''./a.py'']\<rparr>)"
proof -
  let ?sh = "recording_env [] [] [] Config"
  let ?c = "setattr (setattr (setattr (setattr Config
           ''Global'' ''display_banner'' (VBool True))
           ''Global'' ''extensions'' (VInt 3))
           ''Global'' ''exec_lines'' (VList [VStr ''x = 1'']))
           ''Global'' ''exec_files'' (VList [VStr ''a.py''])"
  let ?A = "(new_app [] :: call list app)\<lparr>master_config := ?c\<rparr>"
  let ?w = "[SetDisplayBanner False, ShowBanner]"
  let ?g = "?A\<lparr>log := log ?A @
            [LogRecord DEBUG ''Loading IPython extensions...'' [],
             LogRecord WARN ''Unknown error in loading extensions:'' []],
           world := showtraceback ?sh TypeError ?w\<rparr>"
  have x: "master_config ?A ''Global'' ''extensions'' = Some (VInt 3)"
    by (simp add: setattr_def)
  have t: "py_iter (VInt 3) = Inl TypeError"
    by simp
  have d: "master_config ?A ''Global'' ''display_banner'' = Some (VBool True)"
    by (simp add: setattr_def)
  have b: "(if truthy (VBool True) then show_banner ?sh (set_display_banner ?sh False (world ?A))
          else Ok (set_display_banner ?sh False (world ?A))) = Ok ?w"
    by (simp add: recording_env_def new_app_def)
  have p: "?w = (if log_level ?A \<le> 20 then print_newline ?sh ?w else ?w)"
    by (simp add: new_app_def)
  have g: "?g = ?g"
    by (rule refl)
  have r: "and_then (run_exec_lines ?sh ?g) (run_exec_files ?sh)
    = Ok ((new_app [])\<lparr>master_config := ?c,
        log := [LogRecord DEBUG ''Loading IPython extensions...'' [],
                LogRecord WARN ''Unknown error in loading extensions:'' [],
                LogRecord DEBUG ''Running code from Global.exec_lines...'' [],
                LogRecord INFO ''Running code in user namespace: %s'' [VStr ''x = 1''],
                LogRecord DEBUG ''Running files in Global.exec_files...'' [],
                LogRecord INFO ''Running file in user namespace: %s'' [VStr ''./a.py'']],
        world := [SetDisplayBanner False, ShowBanner, ShowTraceback TypeError,
                  RunLines (VStr ''x = 1''), SafeExecfile ''./a.py'']\<rparr>)"
    by (simp add: and_then_def run_exec_lines_def run_exec_lines_try_def run_exec_files_def
        run_exec_files_try_def setattr_def Let_def recording_env_def new_app_def endswith_def
        log_call_def)
  from outer_guard_keeps_later_passes [OF x t d b p g] have
    "post_construct ?sh ?A = and_then (run_exec_lines ?sh ?g) (run_exec_files ?sh)"
    by (rule conjunct1 [OF conjunct2])
  with r show ?thesis
    by simp
qed

text \<open>
  In the extensions pass and in the statements pass every action of the list is
  attempted, in order, whichever of them raise: the loop logs its INFO line for each.
\<close>

lemma load_extensions_loop_attempts_all:
  "\<exists>self'. load_extensions_loop sh exts self = Ok self' \<and>
     infos (log self') =
       infos (log self) @ map (\<lambda>ext. LogRecord INFO ''Loading IPython extension: %s'' [ext]) exts"
proof (induction exts arbitrary: self)
  case Nil
  show ?case by simp
next
  case (Cons ext exts)
  show ?case
  proof (cases "load_extension sh ext (world self)")
    case (Ok w)
    from Cons.IH [of "(log_call INFO ''Loading IPython extension: %s'' [ext] self)\<lparr>world := w\<rparr>"]
    show ?thesis
      using Ok by (simp add: Let_def log_call_def infos_def)
  next
    case (Raise e w)
    from Cons.IH [of "(log_call WARN ''Error in loading extension: %s'' [ext]
        ((log_call INFO ''Loading IPython extension: %s'' [ext] self)\<lparr>world := w\<rparr>))
        \<lparr>world := showtraceback sh e w\<rparr>"]
    show ?thesis
      using Raise by (simp add: Let_def log_call_def infos_def)
  qed
qed

lemma exec_lines_loop_attempts_all:
  "\<exists>self'. exec_lines_loop sh ls self = Ok self' \<and>
     infos (log self') =
       infos (log self) @ map (\<lambda>l. LogRecord INFO ''Running code in user namespace: %s'' [l]) ls"
proof (induction ls arbitrary: self)
  case Nil
  show ?case by simp
next
  case (Cons l ls)
  show ?case
  proof (cases "runlines sh l (world self)")
    case (Ok w)
    from Cons.IH [of "(log_call INFO ''Running code in user namespace: %s'' [l] self)\<lparr>world := w\<rparr>"]
    show ?thesis
      using Ok by (simp add: Let_def log_call_def infos_def)
  next
    case (Raise e w)
    from Cons.IH [of "(log_call WARN ''Error in executing line in user namespace: %s'' [l]
        ((log_call INFO ''Running code in user namespace: %s'' [l] self)\<lparr>world := w\<rparr>))
        \<lparr>world := showtraceback sh e w\<rparr>"]
    show ?thesis
      using Raise by (simp add: Let_def log_call_def infos_def)
  qed
qed

text \<open>
  A failing action of these two passes is reported by a warning that names it, followed
  by the traceback, and the loop goes on with the remaining actions.
\<close>

lemma load_extensions_loop_failure:
  assumes "load_extension sh ext (world self) = Raise e w"
  shows "load_extensions_loop sh (ext # exts) self =
     load_extensions_loop sh exts
       (self\<lparr>log := log self @
           [LogRecord INFO ''Loading IPython extension: %s'' [ext],
            LogRecord WARN ''Error in loading extension: %s'' [ext]],
          world := showtraceback sh e w\<rparr>)"
  using assms by (simp add: Let_def log_call_def)

lemma exec_lines_loop_failure:
  assumes "runlines sh l (world self) = Raise e w"
  shows "exec_lines_loop sh (l # ls) self =
     exec_lines_loop sh ls
       (self\<lparr>log := log self @
           [LogRecord INFO ''Running code in user namespace: %s'' [l],
            LogRecord WARN ''Error in executing line in user namespace: %s'' [l]],
          world := showtraceback sh e w\<rparr>)"
  using assms by (simp add: Let_def log_call_def)

text \<open>
  The loop of the files pass is different: a failure of \<open>filefind\<close> or of the
  execution leaves the loop, whatever names remain.
\<close>

lemma exec_files_loop_filefind_raises:
  assumes "filefind sh fname [''.'', ipythondir self] (world self) = Inl e"
  shows "exec_files_loop sh (fname # rest) self = Raise e self"
  using assms by simp

lemma run_exec_files_filefind_raises:
  assumes "master_config self ''Global'' ''exec_files'' = Some (VList (fname # rest))"
    and "filefind sh fname [''.'', ipythondir self] (world self) = Inl e"
  shows "run_exec_files sh self =
      Ok (self\<lparr>log := log self @
            [LogRecord DEBUG ''Running files in Global.exec_files...'' [],
             LogRecord WARN ''Unknown error in handling Global.exec_files:'' []],
           world := showtraceback sh e (world self)\<rparr>)"
  using assms by (simp add: run_exec_files_def run_exec_files_try_def Let_def log_call_def)

text \<open>
  Claim C1 fails in the files pass. \<open>_run_exec_files\<close> has no \<open>try\<close> around a single
  file: when \<open>filefind\<close> raises for the first of two names (the file is missing), or
  when the execution of the first file raises, the pass logs only the unknown error of
  the outer guard, which names no file, and the second file is never looked up or run.
\<close>

theorem run_exec_files_aborts_on_first_failure:
  "run_exec_files (recording_env [] [VStr ''missing.py''] [] Config)
      ((new_app [])\<lparr>master_config := setattr Config ''Global'' ''exec_files''
          (VList [VStr ''missing.py'', VStr ''b.py''])\<rparr>)
    = Ok ((new_app [])\<lparr>master_config := setattr Config ''Global'' ''exec_files''
          (VList [VStr ''missing.py'', VStr ''b.py'']),
        log := [LogRecord DEBUG ''Running files in Global.exec_files...'' [],
                LogRecord WARN ''Unknown error in handling Global.exec_files:'' []],
        world := [ShowTraceback (Raised ''IOError'')]\<rparr>)
   \<and> run_exec_files (recording_env [VStr ''./a.py''] [] [] Config)
      ((new_app [])\<lparr>master_config := setattr Config ''Global'' ''exec_files''
          (VList [VStr ''a.py'', VStr ''b.py''])\<rparr>)
    = Ok ((new_app [])\<lparr>master_config := setattr Config ''Global'' ''exec_files''
          (VList [VStr ''a.py'', VStr ''b.py'']),
        log := [LogRecord DEBUG ''Running files in Global.exec_files...'' [],
                LogRecord INFO ''Running file in user namespace: %s'' [VStr ''./a.py''],
                LogRecord WARN ''Unknown error in handling Global.exec_files:'' []],
        world := [SafeExecfile ''./a.py'', ShowTraceback (Raised ''Exception'')]\<rparr>)"
  by (simp add: run_exec_files_def run_exec_files_try_def setattr_def Let_def
      recording_env_def new_app_def endswith_def log_call_def)

end
